theory Spec2Isabelle
  imports Main "HOL-Library.Char_ord" "HOL-Library.List_Lexorder"
begin

section \<open>The WebRTC negotiation service\<close>

text \<open>
  A shallow embedding of the class \<open>WebRTCService\<close>. The repository holds the class
  twice: the perfect-negotiation variant (the unnamed source file \<open>part_001\<close>, with the
  flags \<open>makingOffer\<close>, \<open>ignoreOffer\<close>, \<open>isPolite\<close> and the two pre-created
  transceivers) and \<open>src/services/WebRTCService.ts\<close>, whose handlers guard on the
  presence of a remote description instead. Definitions without a prefix embed the first
  file; definitions prefixed \<open>svc_\<close> embed the handlers of the second.

  The media engine (\<open>react-native-webrtc\<close>), the socket library and the clock are not
  code of the repository. Every call the class makes on them is recorded as an
  \<open>effect\<close>, in program order, and what the call returns or throws is read from an
  \<open>env\<close> record that is a parameter of every handler, so that a theorem holds for
  whatever the engine answers. The calls that can throw are the ones the class awaits
  or wraps in a \<open>try\<close> of their own: the socket's connect, \<open>getUserMedia\<close>,
  \<open>addTransceiver\<close>, \<open>createOffer\<close>, \<open>createAnswer\<close>, \<open>setLocalDescription\<close>,
  \<open>setRemoteDescription\<close> and \<open>addIceCandidate\<close>. A handler is modelled as running
  from its first statement to its last without another handler in between (the two
  functions that construct an outbound offer also return the state that other handlers
  can observe at each of their suspension points).
\<close>

subsection \<open>Data\<close>

datatype kind = Audio | Video

record track =
  trackId :: nat
  trackKind :: kind

type_synonym mediaStream = "track list"

datatype signalingState =
  Stable | HaveLocalOffer | HaveRemoteOffer | HaveLocalPranswer | HaveRemotePranswer | Closed

text \<open>A session description object \<open>{type, sdp}\<close>; on an inbound envelope either field
  may be missing.\<close>

record sdp =
  sdpType :: "string option"
  sdpText :: "string option"

record rtcPeerConnection =
  signalingState :: signalingState
  localDescription :: "sdp option"
  remoteDescription :: "sdp option"

datatype readyState = Connecting | Open | Closing | ClosedChannel

record rtcDataChannel =
  readyState :: readyState

record ioSocket =
  connected :: bool

datatype rtcTransceiver = Transceiver nat

text \<open>The fields of the class. \<open>callbacks\<close> is a handle of the callbacks object.\<close>

record service =
  socket :: "ioSocket option"
  peerConnection :: "rtcPeerConnection option"
  localStream :: "mediaStream option"
  dataChannel :: "rtcDataChannel option"
  callbacks :: "nat option"
  roomId :: string
  userId :: string
  isInitialized :: bool
  makingOffer :: bool
  ignoreOffer :: bool
  isPolite :: bool
  socketId :: "string option"
  audioTransceiver :: "rtcTransceiver option"
  videoTransceiver :: "rtcTransceiver option"

text \<open>The state of a freshly constructed object (the field initialisers).\<close>

definition newService :: service where
  "newService = \<lparr> socket = None, peerConnection = None, localStream = None,
     dataChannel = None, callbacks = None, roomId = [], userId = [],
     isInitialized = False, makingOffer = False, ignoreOffer = False, isPolite = False,
     socketId = None, audioTransceiver = None, videoTransceiver = None \<rparr>"

text \<open>The \<open>data\<close> argument of the inbound signaling handlers.\<close>

record signal =
  msgSdp :: "sdp option"
  msgSender :: "string option"
  msgCandidate :: "string option"

text \<open>Values and payloads put on the wire: a payload is a bare string (\<open>join\<close>) or an
  object literal, kept as its list of fields in source order.\<close>

datatype jsval = JStr string | JNum nat | JSdp sdp | JCandidate string | JNull

datatype payload = PStr string | PObj "(string \<times> jsval) list"

datatype constraints = Detailed bool bool | Simple bool bool

datatype effect =
    OpenSocket string
  | Emit string payload
  | SocketDisconnect
  | NewPeerConnection
  | AddTransceiver kind
  | CreateDataChannel string
  | GetUserMedia constraints
  | ReplaceTrack rtcTransceiver track
  | AddTrack track
  | CallOnLocalStream mediaStream
  | CreateOffer bool
  | CreateAnswer
  | SetLocalDescription sdp
  | SetRemoteDescription sdp
  | AddIceCandidate string
  | ClosePeerConnection
  | CloseDataChannel
  | StopTrack track
  | DataChannelSend payload

text \<open>
  What the environment answers to the calls of one handler run: \<open>Inl msg\<close> is an
  exception (a rejected promise) with message \<open>msg\<close>, \<open>Inr v\<close> the value returned.
  A description call that succeeds returns the connection as the engine reports it
  afterwards. No handler makes the same call twice, \<open>getUserMedia\<close> apart, whose
  retry has a field of its own.
\<close>

record env =
  res_connect :: "string + ioSocket"
  res_newPeerConnection :: rtcPeerConnection
  res_addTransceiverAudio :: "string + rtcTransceiver"
  res_addTransceiverVideo :: "string + rtcTransceiver"
  res_createDataChannel :: rtcDataChannel
  res_getUserMedia :: "string + mediaStream"
  res_getUserMediaSimple :: "string + mediaStream"
  res_createOffer :: "string + sdp"
  res_createAnswer :: "string + sdp"
  res_setLocalDescription :: "string + rtcPeerConnection"
  res_setRemoteDescription :: "string + rtcPeerConnection"
  res_now :: nat

text \<open>The result of a block that may throw: the effects so far, the state, and the
  message of the exception if one was thrown.\<close>

type_synonym outcome = "effect list \<times> service \<times> string option"

subsection \<open>Helpers for JavaScript idioms\<close>

text \<open>\<open>!!v\<close> for a value that is a string or missing.\<close>

definition truthy :: "string option \<Rightarrow> bool" where
  "truthy v = (case v of None \<Rightarrow> False | Some t \<Rightarrow> t \<noteq> [])"

fun startsWith :: "string \<Rightarrow> string \<Rightarrow> bool" where
  "startsWith xs [] = True"
| "startsWith [] (c # cs) = False"
| "startsWith (x # xs) (c # cs) = (x = c \<and> startsWith xs cs)"

text \<open>\<open>String.prototype.includes\<close>.\<close>

fun strIncludes :: "string \<Rightarrow> string \<Rightarrow> bool" where
  "strIncludes [] pat = (pat = [])"
| "strIncludes (x # xs) pat = (startsWith (x # xs) pat \<or> strIncludes xs pat)"

text \<open>\<open>this.socket?.emit(ev, p)\<close>.\<close>

definition emit :: "service \<Rightarrow> string \<Rightarrow> payload \<Rightarrow> effect list" where
  "emit s ev p = (case socket s of None \<Rightarrow> [] | Some sock \<Rightarrow> [Emit ev p])"

subsection \<open>Initialisation\<close>

text \<open>\<open>initializeSocket\<close>: the socket is created and stored; the promise resolves when
  \<open>connect\<close> fires, whose handler emits \<open>join\<close> with the bare room id, and rejects on
  \<open>connect_error\<close> or on the timeout.\<close>

definition initializeSocket :: "env \<Rightarrow> string \<Rightarrow> service \<Rightarrow> outcome" where
  "initializeSocket E signalingServer s =
     (case res_connect E of
        Inl err \<Rightarrow>
          ([OpenSocket signalingServer], s\<lparr>socket := Some \<lparr>connected = False\<rparr>\<rparr>, Some err)
      | Inr sock \<Rightarrow>
          (let s1 = s\<lparr>socket := Some sock\<rparr>
           in ([OpenSocket signalingServer] @ emit s1 ''join'' (PStr (roomId s1)), s1, None)))"

text \<open>\<open>initializePeerConnection\<close>: a new connection, the two transceivers inside one
  \<open>try\<close> (when the first call throws the second is not made and neither field is
  assigned), the event handlers (embedded as functions of their own below), and the
  chat data channel.\<close>

definition initializePeerConnection :: "env \<Rightarrow> service \<Rightarrow> effect list \<times> service" where
  "initializePeerConnection E s =
     (let s1 = s\<lparr>peerConnection := Some (res_newPeerConnection E)\<rparr>;
          (es, s2) =
            (case res_addTransceiverAudio E of
               Inl e \<Rightarrow> ([AddTransceiver Audio], s1)
             | Inr a \<Rightarrow>
                 (case res_addTransceiverVideo E of
                    Inl e \<Rightarrow>
                      ([AddTransceiver Audio, AddTransceiver Video],
                       s1\<lparr>audioTransceiver := Some a\<rparr>)
                  | Inr v \<Rightarrow>
                      ([AddTransceiver Audio, AddTransceiver Video],
                       s1\<lparr>audioTransceiver := Some a, videoTransceiver := Some v\<rparr>)))
      in ([NewPeerConnection] @ es @ [CreateDataChannel ''chat''],
          s2\<lparr>dataChannel := Some (res_createDataChannel E)\<rparr>))"

definition initialize ::
    "env \<Rightarrow> string \<Rightarrow> string \<Rightarrow> string \<Rightarrow> nat \<Rightarrow> service \<Rightarrow> outcome" where
  "initialize E signalingServer rid uid cbs s =
     (if isInitialized s then ([], s, None)
      else
        (let s1 = s\<lparr>roomId := rid, userId := uid, callbacks := Some cbs\<rparr>
         in (case initializeSocket E signalingServer s1 of
               (es, s2, Some err) \<Rightarrow> (es, s2, Some err)
             | (es, s2, None) \<Rightarrow>
                 (let (es', s3) = initializePeerConnection E s2
                  in (es @ es', s3\<lparr>isInitialized := True\<rparr>, None)))))"

text \<open>The \<open>onicecandidate\<close> handler installed by \<open>initializePeerConnection\<close>.\<close>

definition onicecandidate :: "string option \<Rightarrow> service \<Rightarrow> effect list \<times> service" where
  "onicecandidate candidate s =
     (case candidate of
        None \<Rightarrow> ([], s)
      | Some c \<Rightarrow>
          (emit s ''ice-candidate''
             (PObj [(''roomId'', JStr (roomId s)), (''candidate'', JCandidate c),
                    (''sender'', JStr (userId s))]), s))"

subsection \<open>Local media\<close>

text \<open>The body of the \<open>forEach\<close> over the stream's tracks in \<open>startLocalStream\<close>.\<close>

definition attachTrack :: "service \<Rightarrow> track \<Rightarrow> effect" where
  "attachTrack s t =
     (case (trackKind t, audioTransceiver s, videoTransceiver s) of
        (Audio, Some a, _) \<Rightarrow> ReplaceTrack a t
      | (Video, _, Some v) \<Rightarrow> ReplaceTrack v t
      | _ \<Rightarrow> AddTrack t)"

definition attachStream :: "service \<Rightarrow> mediaStream \<Rightarrow> effect list" where
  "attachStream s stream =
     (case peerConnection s of None \<Rightarrow> [] | Some p \<Rightarrow> map (attachTrack s) stream)"

definition callOnLocalStream :: "service \<Rightarrow> mediaStream \<Rightarrow> effect list" where
  "callOnLocalStream s stream =
     (case callbacks s of None \<Rightarrow> [] | Some c \<Rightarrow> [CallOnLocalStream stream])"

definition startLocalStream :: "env \<Rightarrow> bool \<Rightarrow> bool \<Rightarrow> service \<Rightarrow> outcome" where
  "startLocalStream E video audio s =
     (case res_getUserMedia E of
        Inr stream \<Rightarrow>
          (let s1 = s\<lparr>localStream := Some stream\<rparr>
           in ([GetUserMedia (Detailed video audio)] @ attachStream s1 stream
                 @ callOnLocalStream s1 stream, s1, None))
      | Inl err \<Rightarrow>
          (if video \<or> audio then
             (case res_getUserMediaSimple E of
                Inr stream \<Rightarrow>
                  (let s1 = s\<lparr>localStream := Some stream\<rparr>
                   in ([GetUserMedia (Detailed video audio), GetUserMedia (Simple video audio)]
                         @ attachStream s1 stream @ callOnLocalStream s1 stream, s1, None))
              | Inl retryError \<Rightarrow>
                  ([GetUserMedia (Detailed video audio), GetUserMedia (Simple video audio)],
                   s, Some retryError))
           else ([GetUserMedia (Detailed video audio)], s, Some err)))"

subsection \<open>Recovery\<close>

definition recoverFromSDPError :: "env \<Rightarrow> service \<Rightarrow> effect list \<times> service" where
  "recoverFromSDPError E s =
     (let closing = (case peerConnection s of None \<Rightarrow> [] | Some p \<Rightarrow> [ClosePeerConnection]);
          (es, s1) = initializePeerConnection E s;
          readd =
            (case localStream s1 of
               None \<Rightarrow> []
             | Some stream \<Rightarrow>
                 (case peerConnection s1 of None \<Rightarrow> [] | Some p \<Rightarrow> map AddTrack stream))
      in (closing @ es @ readd, s1))"

text \<open>The \<open>catch\<close> block shared by \<open>handleOffer\<close> and \<open>handleAnswer\<close>: recovery runs when
  the message of the exception names a state conflict; any other exception is logged.\<close>

definition catchSdpError :: "env \<Rightarrow> outcome \<Rightarrow> effect list \<times> service" where
  "catchSdpError E r =
     (case r of
        (es, s, None) \<Rightarrow> (es, s)
      | (es, s, Some msg) \<Rightarrow>
          (if strIncludes msg ''error_content'' \<or> strIncludes msg ''InvalidStateError''
           then (let (es', s') = recoverFromSDPError E s in (es @ es', s'))
           else (es, s)))"

subsection \<open>Inbound signaling\<close>

text \<open>\<open>!data.sdp || !data.sdp.type || !data.sdp.sdp\<close> is the negation of:\<close>

definition validSdp :: "signal \<Rightarrow> bool" where
  "validSdp data =
     (case msgSdp data of None \<Rightarrow> False | Some d \<Rightarrow> truthy (sdpType d) \<and> truthy (sdpText d))"

text \<open>\<open>!!this.userId && !!data.sender && String(this.userId) > String(data.sender)\<close>;
  strings are compared position by position on their character codes.\<close>

definition politeness :: "string \<Rightarrow> string option \<Rightarrow> bool" where
  "politeness uid sender =
     (uid \<noteq> [] \<and> (case sender of None \<Rightarrow> False | Some x \<Rightarrow> x \<noteq> [] \<and> x < uid))"

text \<open>The statements of \<open>handleOffer\<close> after the collision check, inside its \<open>try\<close>.\<close>

definition answerOffer :: "env \<Rightarrow> sdp \<Rightarrow> service \<Rightarrow> outcome" where
  "answerOffer E d s =
     (case (if localStream s = None then startLocalStream E True True s else ([], s, None)) of
        (es0, s0, Some err) \<Rightarrow> (es0, s0, Some err)
      | (es0, s0, None) \<Rightarrow>
          (case res_setRemoteDescription E of
             Inl err \<Rightarrow> (es0 @ [SetRemoteDescription d], s0, Some err)
           | Inr p1 \<Rightarrow>
               (let s1 = s0\<lparr>peerConnection := Some p1\<rparr>
                in (case res_createAnswer E of
                      Inl err \<Rightarrow> (es0 @ [SetRemoteDescription d, CreateAnswer], s1, Some err)
                    | Inr answer \<Rightarrow>
                        (case res_setLocalDescription E of
                           Inl err \<Rightarrow>
                             (es0 @ [SetRemoteDescription d, CreateAnswer,
                                     SetLocalDescription answer], s1, Some err)
                         | Inr p2 \<Rightarrow>
                             (let s2 = s1\<lparr>peerConnection := Some p2\<rparr>
                              in (es0 @ [SetRemoteDescription d, CreateAnswer,
                                         SetLocalDescription answer]
                                    @ emit s2 ''answer''
                                        (PObj [(''roomId'', JStr (roomId s2)),
                                               (''sdp'', JSdp answer),
                                               (''sender'', JStr (userId s2))]),
                                  s2, None)))))))"

definition handleOffer :: "env \<Rightarrow> signal \<Rightarrow> service \<Rightarrow> effect list \<times> service" where
  "handleOffer E data s =
     (case peerConnection s of
        None \<Rightarrow> ([], s)
      | Some p \<Rightarrow>
          (case (if validSdp data then msgSdp data else None) of
             None \<Rightarrow> ([], s)
           | Some d \<Rightarrow>
               (let s1 = s\<lparr>isPolite := politeness (userId s) (msgSender data)\<rparr>;
                    offerCollision = (makingOffer s1 \<or> signalingState p \<noteq> Stable);
                    s2 = s1\<lparr>ignoreOffer := (\<not> isPolite s1 \<and> offerCollision)\<rparr>
                in if ignoreOffer s2 then ([], s2)
                   else catchSdpError E (answerOffer E d s2))))"

definition handleAnswer :: "env \<Rightarrow> signal \<Rightarrow> service \<Rightarrow> effect list \<times> service" where
  "handleAnswer E data s =
     (case peerConnection s of
        None \<Rightarrow> ([], s)
      | Some p \<Rightarrow>
          (case (if validSdp data then msgSdp data else None) of
             None \<Rightarrow> ([], s)
           | Some d \<Rightarrow>
               (if ignoreOffer s then ([], s)
                else catchSdpError E
                  (case res_setRemoteDescription E of
                     Inl err \<Rightarrow> ([SetRemoteDescription d], s, Some err)
                   | Inr p1 \<Rightarrow>
                       ([SetRemoteDescription d], s\<lparr>peerConnection := Some p1\<rparr>, None)))))"

text \<open>\<open>handleIceCandidate\<close>: for an envelope without \<open>candidate\<close> the constructor
  \<open>new RTCIceCandidate(data.candidate)\<close> throws inside the \<open>try\<close>, before
  \<open>addIceCandidate\<close> is called; an exception of \<open>addIceCandidate\<close> itself is caught
  and logged as well, so the call's result does not reach the state.\<close>

definition handleIceCandidate :: "signal \<Rightarrow> service \<Rightarrow> effect list \<times> service" where
  "handleIceCandidate data s =
     (case peerConnection s of
        None \<Rightarrow> ([], s)
      | Some p \<Rightarrow>
          (if ignoreOffer s then ([], s)
           else (case msgCandidate data of
                   None \<Rightarrow> ([], s)
                 | Some c \<Rightarrow> ([AddIceCandidate c], s))))"

subsection \<open>Outbound offers\<close>

text \<open>
  The \<open>onnegotiationneeded\<close> handler installed by \<open>initializePeerConnection\<close>. The
  first component lists the state of the object at each \<open>await\<close> of the handler, in
  order: that is what another handler sees if it runs while this one is suspended.
  The \<open>finally\<close> block clears \<open>makingOffer\<close> on every path, the early \<open>return\<close>
  included.
\<close>

definition onnegotiationneeded :: "env \<Rightarrow> service \<Rightarrow> service list \<times> effect list \<times> service" where
  "onnegotiationneeded E s =
     (case peerConnection s of
        None \<Rightarrow> ([], [], s\<lparr>makingOffer := False\<rparr>)
      | Some p \<Rightarrow>
          (let s1 = s\<lparr>makingOffer := True\<rparr>
           in (case res_createOffer E of
                 Inl err \<Rightarrow> ([s1], [CreateOffer False], s1\<lparr>makingOffer := False\<rparr>)
               | Inr offer \<Rightarrow>
                   (case res_setLocalDescription E of
                      Inl err \<Rightarrow>
                        ([s1, s1], [CreateOffer False, SetLocalDescription offer],
                         s1\<lparr>makingOffer := False\<rparr>)
                    | Inr p1 \<Rightarrow>
                        (let s2 = s1\<lparr>peerConnection := Some p1\<rparr>
                         in ([s1, s1],
                             [CreateOffer False, SetLocalDescription offer]
                               @ emit s2 ''offer''
                                   (PObj [(''roomId'', JStr (roomId s2)),
                                          (''sdp'', (case localDescription p1 of
                                                       None \<Rightarrow> JNull | Some l \<Rightarrow> JSdp l)),
                                          (''sender'', JStr (userId s2))]),
                             s2\<lparr>makingOffer := False\<rparr>))))))"

text \<open>
  The public method \<open>createOffer\<close>, which the call screen invokes from its call button.
  \<open>CreateOffer True\<close> is the call with the explicit receive options. The first
  component lists the state at each \<open>await\<close> as above (one entry for the wait on
  \<open>startLocalStream\<close>); the exception, if any, is rethrown to the caller.
\<close>

definition createOffer :: "env \<Rightarrow> service \<Rightarrow> service list \<times> outcome" where
  "createOffer E s =
     (case peerConnection s of
        None \<Rightarrow> ([], [], s, None)
      | Some p \<Rightarrow>
          (let waits = (if localStream s = None then [s] else [])
           in (case (if localStream s = None then startLocalStream E True True s
                     else ([], s, None)) of
                 (es0, s0, Some err) \<Rightarrow> (waits, es0, s0, Some err)
               | (es0, s0, None) \<Rightarrow>
                   (case res_createOffer E of
                      Inl err \<Rightarrow> (waits @ [s0], es0 @ [CreateOffer True], s0, Some err)
                    | Inr offer \<Rightarrow>
                        (case res_setLocalDescription E of
                           Inl err \<Rightarrow>
                             (waits @ [s0, s0],
                              es0 @ [CreateOffer True, SetLocalDescription offer], s0, Some err)
                         | Inr p1 \<Rightarrow>
                             (let s1 = s0\<lparr>peerConnection := Some p1\<rparr>
                              in (waits @ [s0, s0],
                                  es0 @ [CreateOffer True, SetLocalDescription offer]
                                    @ emit s1 ''offer''
                                        (PObj [(''roomId'', JStr (roomId s1)),
                                               (''sdp'', JSdp offer),
                                               (''sender'', JStr (userId s1))]),
                                  s1, None)))))))"

subsection \<open>Chat, call control, teardown\<close>

text \<open>\<open>sendChatMessage\<close>; the object handed to \<open>JSON.stringify\<close> is kept as the object.\<close>

definition sendChatMessage :: "env \<Rightarrow> string \<Rightarrow> service \<Rightarrow> effect list \<times> service" where
  "sendChatMessage E message s =
     (if (case dataChannel s of None \<Rightarrow> True | Some dc \<Rightarrow> readyState dc \<noteq> Open)
      then (emit s ''chat-message''
              (PObj [(''roomId'', JStr (roomId s)), (''sender'', JStr (userId s)),
                     (''message'', JStr message)]), s)
      else ([DataChannelSend
               (PObj [(''sender'', JStr (userId s)), (''message'', JStr message),
                      (''time'', JNum (res_now E)), (''senderId'', JStr (userId s))])], s))"

definition makeCall :: "string \<Rightarrow> service \<Rightarrow> effect list \<times> service" where
  "makeCall targetSocketId s =
     (emit s ''call-user''
        (PObj [(''roomId'', JStr (roomId s)), (''targetSocketId'', JStr targetSocketId),
               (''sender'', JStr (userId s))]), s)"

definition acceptCall :: "string \<Rightarrow> service \<Rightarrow> effect list \<times> service" where
  "acceptCall callerSocketId s =
     (emit s ''call-accepted''
        (PObj [(''roomId'', JStr (roomId s)), (''targetSocketId'', JStr callerSocketId),
               (''sender'', JStr (userId s))]), s)"

definition rejectCall :: "string \<Rightarrow> service \<Rightarrow> effect list \<times> service" where
  "rejectCall callerSocketId s =
     (emit s ''call-rejected''
        (PObj [(''roomId'', JStr (roomId s)), (''targetSocketId'', JStr callerSocketId),
               (''sender'', JStr (userId s))]), s)"

definition endCall :: "service \<Rightarrow> effect list \<times> service" where
  "endCall s =
     (emit s ''end-call''
        (PObj [(''roomId'', JStr (roomId s)), (''sender'', JStr (userId s))]), s)"

definition disconnect :: "service \<Rightarrow> effect list \<times> service" where
  "disconnect s =
     ((case dataChannel s of None \<Rightarrow> [] | Some dc \<Rightarrow> [CloseDataChannel])
        @ (case peerConnection s of None \<Rightarrow> [] | Some p \<Rightarrow> [ClosePeerConnection])
        @ (case localStream s of None \<Rightarrow> [] | Some stream \<Rightarrow> map StopTrack stream)
        @ (case socket s of None \<Rightarrow> [] | Some sock \<Rightarrow> [SocketDisconnect]),
      s\<lparr>dataChannel := None, peerConnection := None, localStream := None, socket := None,
        isInitialized := False\<rparr>)"

subsection \<open>The handlers of \<open>src/services/WebRTCService.ts\<close>\<close>









subsection \<open>Handlers that only notify\<close>

text \<open>
  \<open>handleRoomUpdate\<close>, \<open>handleChatMessage\<close>, \<open>handleJoined\<close>, \<open>handleIncomingCall\<close>,
  \<open>handleCallAccepted\<close>, \<open>handleCallRejected\<close>, \<open>handleCallEnded\<close> and
  \<open>handleUserDisconnected\<close> of the perfect-negotiation file call one callback of the
  user interface, which is not recorded, and assign no field. (\<open>toggleCamera\<close>,
  \<open>toggleMicrophone\<close> and \<open>switchCamera\<close> act on the tracks of the local stream only and
  are not embedded.)
\<close>

definition notify :: "service \<Rightarrow> effect list \<times> service" where
  "notify s = ([], s)"

subsection \<open>One step of the service\<close>

text \<open>Everything that can run on the object: the socket's and the connection's events, and
  the public methods.\<close>

datatype event =
    DoInitialize string string string nat
  | DoStartLocalStream bool bool
  | OnOffer signal
  | OnAnswer signal
  | OnIceCandidate signal
  | OnNotification
  | OnLocalCandidate "string option"
  | OnNegotiationNeeded
  | DoCreateOffer
  | DoSendChatMessage string
  | DoMakeCall string
  | DoAcceptCall string
  | DoRejectCall string
  | DoEndCall
  | DoDisconnect

fun run :: "env \<Rightarrow> event \<Rightarrow> service \<Rightarrow> effect list \<times> service" where
  "run E (DoInitialize srv rid uid cbs) s =
     (case initialize E srv rid uid cbs s of (es, s', r) \<Rightarrow> (es, s'))"
| "run E (DoStartLocalStream video audio) s =
     (case startLocalStream E video audio s of (es, s', r) \<Rightarrow> (es, s'))"
| "run E (OnOffer data) s = handleOffer E data s"
| "run E (OnAnswer data) s = handleAnswer E data s"
| "run E (OnIceCandidate data) s = handleIceCandidate data s"
| "run E OnNotification s = notify s"
| "run E (OnLocalCandidate c) s = onicecandidate c s"
| "run E OnNegotiationNeeded s = snd (onnegotiationneeded E s)"
| "run E DoCreateOffer s = (case createOffer E s of (waits, es, s', r) \<Rightarrow> (es, s'))"
| "run E (DoSendChatMessage m) s = sendChatMessage E m s"
| "run E (DoMakeCall t) s = makeCall t s"
| "run E (DoAcceptCall t) s = acceptCall t s"
| "run E (DoRejectCall t) s = rejectCall t s"
| "run E DoEndCall s = endCall s"
| "run E DoDisconnect s = disconnect s"

text \<open>A sequence of steps, each with the environment's answers for it.\<close>

fun runAll :: "(env \<times> event) list \<Rightarrow> service \<Rightarrow> effect list \<times> service" where
  "runAll [] s = ([], s)"
| "runAll (x # xs) s =
     (case run (fst x) (snd x) s of
        (es, s1) \<Rightarrow> (case runAll xs s1 of (es', s2) \<Rightarrow> (es @ es', s2)))"

subsection \<open>Observations on effects and events\<close>

fun isEmit :: "effect \<Rightarrow> bool" where
  "isEmit (Emit ev p) = True"
| "isEmit e = False"

text \<open>The steps of the accept sequence of an offer: the three description calls and the
  emission of an envelope.\<close>

fun isNegotiationStep :: "effect \<Rightarrow> bool" where
  "isNegotiationStep (SetRemoteDescription d) = True"
| "isNegotiationStep CreateAnswer = True"
| "isNegotiationStep (SetLocalDescription d) = True"
| "isNegotiationStep (Emit ev p) = True"
| "isNegotiationStep e = False"


text \<open>
  How an emitted envelope is addressed, for a service with room \<open>rid\<close> and user \<open>uid\<close>:
  an object payload carries them in its fields \<open>roomId\<close> and \<open>sender\<close>; a payload that
  is a bare string belongs to \<open>join\<close> and is the room id. Effects other than \<open>Emit\<close>
  are not envelopes.
\<close>

fun addressedTo :: "string \<Rightarrow> string \<Rightarrow> effect \<Rightarrow> bool" where
  "addressedTo rid uid (Emit ev (PObj fs)) =
     (map_of fs ''roomId'' = Some (JStr rid) \<and> map_of fs ''sender'' = Some (JStr uid))"
| "addressedTo rid uid (Emit ev (PStr x)) = (ev = ''join'' \<and> x = rid)"
| "addressedTo rid uid e = True"

fun isOffer :: "event \<Rightarrow> bool" where
  "isOffer (OnOffer data) = True"
| "isOffer ev = False"

fun isAnswerOrCandidate :: "event \<Rightarrow> bool" where
  "isAnswerOrCandidate (OnAnswer data) = True"
| "isAnswerOrCandidate (OnIceCandidate data) = True"
| "isAnswerOrCandidate ev = False"

subsection \<open>Sample values\<close>

definition audioTrack :: track where
  "audioTrack = \<lparr>trackId = 1, trackKind = Audio\<rparr>"

definition videoTrack :: track where
  "videoTrack = \<lparr>trackId = 2, trackKind = Video\<rparr>"

definition stablePC :: rtcPeerConnection where
  "stablePC = \<lparr>signalingState = Stable, localDescription = None, remoteDescription = None\<rparr>"

definition sampleOffer :: sdp where
  "sampleOffer = \<lparr>sdpType = Some ''offer'', sdpText = Some ''v=0''\<rparr>"

definition sampleAnswer :: sdp where
  "sampleAnswer = \<lparr>sdpType = Some ''answer'', sdpText = Some ''v=0''\<rparr>"

text \<open>An environment in which every call succeeds.\<close>

definition okEnv :: env where
  "okEnv = \<lparr> res_connect = Inr \<lparr>connected = True\<rparr>,
     res_newPeerConnection = stablePC,
     res_addTransceiverAudio = Inr (Transceiver 3),
     res_addTransceiverVideo = Inr (Transceiver 4),
     res_createDataChannel = \<lparr>readyState = Connecting\<rparr>,
     res_getUserMedia = Inr [audioTrack, videoTrack],
     res_getUserMediaSimple = Inr [audioTrack, videoTrack],
     res_createOffer = Inr sampleOffer,
     res_createAnswer = Inr sampleAnswer,
     res_setLocalDescription =
       Inr \<lparr>signalingState = Stable, localDescription = Some sampleAnswer,
            remoteDescription = Some sampleOffer\<rparr>,
     res_setRemoteDescription =
       Inr \<lparr>signalingState = HaveRemoteOffer, localDescription = None,
            remoteDescription = Some sampleOffer\<rparr>,
     res_now = 1700000000000 \<rparr>"

text \<open>User \<open>bob\<close> in room \<open>room\<close>, initialised, with local media attached.\<close>

definition bobService :: service where
  "bobService = \<lparr> socket = Some \<lparr>connected = True\<rparr>, peerConnection = Some stablePC,
     localStream = Some [audioTrack, videoTrack],
     dataChannel = Some \<lparr>readyState = Connecting\<rparr>, callbacks = Some 0,
     roomId = ''room'', userId = ''bob'',
     isInitialized = True, makingOffer = False, ignoreOffer = False, isPolite = False,
     socketId = None, audioTransceiver = Some (Transceiver 1),
     videoTransceiver = Some (Transceiver 2) \<rparr>"

text \<open>An offer from \<open>alice\<close>, and the same envelope with \<open>sdp.type\<close> missing.\<close>

definition offerFromAlice :: signal where
  "offerFromAlice = \<lparr>msgSdp = Some sampleOffer, msgSender = Some ''alice'', msgCandidate = None\<rparr>"

definition malformedOffer :: signal where
  "malformedOffer =
     \<lparr>msgSdp = Some \<lparr>sdpType = None, sdpText = Some ''v=0''\<rparr>, msgSender = Some ''alice'',
      msgCandidate = None\<rparr>"

text \<open>The engine rejects \<open>setRemoteDescription\<close>: with an error that is no state
  conflict, and with one that is.\<close>

definition rejectingEnv :: env where
  "rejectingEnv =
     okEnv\<lparr>res_setRemoteDescription :=
             Inl ''OperationError: Failed to parse SessionDescription''\<rparr>"


text \<open>User \<open>aaron\<close>, whose own offer is under construction.\<close>

definition aaronService :: service where
  "aaronService = bobService\<lparr>userId := ''aaron'', makingOffer := True\<rparr>"

text \<open>\<open>bob\<close> after a completed offer/answer exchange, and with the data channel open.\<close>

definition negotiatedPC :: rtcPeerConnection where
  "negotiatedPC =
     \<lparr>signalingState = Stable, localDescription = Some sampleOffer,
      remoteDescription = Some sampleAnswer\<rparr>"

definition bobNegotiated :: service where
  "bobNegotiated =
     bobService\<lparr>peerConnection := Some negotiatedPC,
                dataChannel := Some \<lparr>readyState = Open\<rparr>\<rparr>"

definition answerFromAlice :: signal where
  "answerFromAlice =
     \<lparr>msgSdp = Some sampleAnswer, msgSender = Some ''alice'', msgCandidate = None\<rparr>"

definition candidateFromAlice :: signal where
  "candidateFromAlice =
     \<lparr>msgSdp = None, msgSender = Some ''alice'', msgCandidate = Some ''candidate:1''\<rparr>"

text \<open>\<open>aaron\<close> after he has ignored a colliding offer and his own attempt is over.\<close>

definition aaronIgnoring :: service where
  "aaronIgnoring = aaronService\<lparr>makingOffer := False, ignoreOffer := True\<rparr>"

text \<open>User \<open>alice\<close>, and an offer from \<open>bob\<close>.\<close>

definition aliceService :: service where
  "aliceService = bobService\<lparr>userId := ''alice''\<rparr>"

definition offerFromBob :: signal where
  "offerFromBob = \<lparr>msgSdp = Some sampleOffer, msgSender = Some ''bob'', msgCandidate = None\<rparr>"

text \<open>\<open>aaron\<close> with no negotiation under way.\<close>

definition aaronIdle :: service where
  "aaronIdle = bobService\<lparr>userId := ''aaron''\<rparr>"

section \<open>Properties\<close>

subsection \<open>What the handlers leave alone\<close>

lemma no_emit_addressed: "filter isEmit es = [] \<Longrightarrow> list_all (addressedTo rid uid) es"
proof (induction es)
  case Nil
  then show ?case by simp
next
  case (Cons e es)
  then show ?case by (cases e) (auto split: if_splits)
qed

lemma startLocalStream_frame:
  "startLocalStream E v a s = (es, s', r) \<Longrightarrow>
     ignoreOffer s' = ignoreOffer s \<and> isPolite s' = isPolite s \<and> makingOffer s' = makingOffer s \<and>
     peerConnection s' = peerConnection s \<and> socket s' = socket s \<and> roomId s' = roomId s \<and>
     userId s' = userId s \<and> filter isEmit es = []"
  by (auto simp: startLocalStream_def attachStream_def attachTrack_def callOnLocalStream_def
        Let_def filter_empty_conv
      split: sum.splits if_splits option.splits kind.splits)

lemma recoverFromSDPError_frame:
  "recoverFromSDPError E s = (es, s') \<Longrightarrow>
     ignoreOffer s' = ignoreOffer s \<and> isPolite s' = isPolite s \<and> makingOffer s' = makingOffer s \<and>
     socket s' = socket s \<and> roomId s' = roomId s \<and> userId s' = userId s \<and>
     filter isEmit es = []"
  by (auto simp: recoverFromSDPError_def initializePeerConnection_def Let_def filter_empty_conv
      split: sum.splits if_splits option.splits prod.splits)

lemma catchSdpError_frame:
  "catchSdpError E (es, s, r) = (es', s') \<Longrightarrow>
     ignoreOffer s' = ignoreOffer s \<and> isPolite s' = isPolite s \<and> makingOffer s' = makingOffer s \<and>
     socket s' = socket s \<and> roomId s' = roomId s \<and> userId s' = userId s \<and>
     filter isEmit es' = filter isEmit es"
  by (auto simp: catchSdpError_def split: option.splits if_splits prod.splits
      dest: recoverFromSDPError_frame)

lemma answerOffer_frame:
  "answerOffer E d s = (es, s', r) \<Longrightarrow>
     ignoreOffer s' = ignoreOffer s \<and> isPolite s' = isPolite s \<and> makingOffer s' = makingOffer s \<and>
     socket s' = socket s \<and> roomId s' = roomId s \<and> userId s' = userId s \<and>
     list_all (addressedTo (roomId s) (userId s)) es"
  by (auto simp: answerOffer_def Let_def emit_def
      split: option.splits if_splits prod.splits sum.splits
      dest!: startLocalStream_frame intro: no_emit_addressed)


lemma handleOffer_valid:
  "peerConnection s = Some p \<Longrightarrow> msgSdp data = Some d \<Longrightarrow> validSdp data \<Longrightarrow>
   handleOffer E data s =
     (if \<not> politeness (userId s) (msgSender data)
         \<and> (makingOffer s \<or> signalingState p \<noteq> Stable)
      then ([], s\<lparr>isPolite := False, ignoreOffer := True\<rparr>)
      else catchSdpError E
             (answerOffer E d
                (s\<lparr>isPolite := politeness (userId s) (msgSender data), ignoreOffer := False\<rparr>)))"
  by (auto simp: handleOffer_def Let_def)

lemma handleOffer_invalid:
  "peerConnection s = None \<or> \<not> validSdp data \<Longrightarrow> handleOffer E data s = ([], s)"
  by (auto simp: handleOffer_def split: option.splits)


lemma handleOffer_flags:
  assumes "peerConnection s = Some p" "validSdp data"
  shows "isPolite (snd (handleOffer E data s)) = politeness (userId s) (msgSender data)
       \<and> ignoreOffer (snd (handleOffer E data s))
          = (\<not> politeness (userId s) (msgSender data)
             \<and> (makingOffer s \<or> signalingState p \<noteq> Stable))"
proof -
  obtain d where d: "msgSdp data = Some d"
    using assms(2) by (auto simp: validSdp_def split: option.splits)
  let ?s2 = "s\<lparr>isPolite := politeness (userId s) (msgSender data), ignoreOffer := False\<rparr>"
  obtain es1 s1 r where a: "answerOffer E d ?s2 = (es1, s1, r)" by (metis prod_cases3)
  obtain es2 s2 where c: "catchSdpError E (es1, s1, r) = (es2, s2)" by (metis surj_pair)
  from answerOffer_frame [OF a] catchSdpError_frame [OF c]
  have f: "isPolite s2 = politeness (userId s) (msgSender data)" "\<not> ignoreOffer s2" by auto
  show ?thesis
    unfolding handleOffer_valid [OF assms(1) d assms(2)] a c using f by auto
qed

lemma handleAnswer_frame:
  "handleAnswer E data s = (es, s') \<Longrightarrow>
     ignoreOffer s' = ignoreOffer s \<and> isPolite s' = isPolite s \<and> makingOffer s' = makingOffer s \<and>
     socket s' = socket s \<and> roomId s' = roomId s \<and> userId s' = userId s \<and>
     filter isEmit es = []"
  by (auto simp: handleAnswer_def split: option.splits if_splits sum.splits
      dest!: catchSdpError_frame)

lemma initialize_frame:
  "initialize E srv rid uid cbs s = (es, s', r) \<Longrightarrow>
     ignoreOffer s' = ignoreOffer s \<and> list_all (addressedTo (roomId s') (userId s')) es"
  by (auto simp: initialize_def initializeSocket_def initializePeerConnection_def Let_def emit_def
      split: option.splits if_splits sum.splits prod.splits)

lemma onnegotiationneeded_frame:
  "onnegotiationneeded E s = (ws, es, s') \<Longrightarrow>
     ignoreOffer s' = ignoreOffer s \<and> roomId s' = roomId s \<and> userId s' = userId s \<and>
     list_all (addressedTo (roomId s) (userId s)) es"
  by (auto simp: onnegotiationneeded_def Let_def emit_def
      split: option.splits if_splits sum.splits prod.splits)

lemma createOffer_frame:
  "createOffer E s = (ws, es, s', r) \<Longrightarrow>
     ignoreOffer s' = ignoreOffer s \<and> roomId s' = roomId s \<and> userId s' = userId s \<and>
     list_all (addressedTo (roomId s) (userId s)) es"
proof (cases "peerConnection s")
  case None
  assume "createOffer E s = (ws, es, s', r)"
  with None show ?thesis by (simp add: createOffer_def)
next
  case (Some p)
  assume h: "createOffer E s = (ws, es, s', r)"
  obtain es0 s0 r0 where st:
    "(if localStream s = None then startLocalStream E True True s else ([], s, None)) = (es0, s0, r0)"
    by (metis prod_cases3)
  have fr: "ignoreOffer s0 = ignoreOffer s \<and> roomId s0 = roomId s \<and> userId s0 = userId s
      \<and> socket s0 = socket s \<and> list_all (addressedTo (roomId s) (userId s)) es0"
  proof (cases "localStream s = None")
    case True
    with st have "startLocalStream E True True s = (es0, s0, r0)" by simp
    from startLocalStream_frame [OF this] show ?thesis by (simp add: no_emit_addressed)
  next
    case False
    with st show ?thesis by simp
  qed
  from h show ?thesis
    unfolding createOffer_def Some option.case Let_def st
    using fr by (auto simp: emit_def split: option.splits sum.splits)
qed


lemma run_keeps_ignoreOffer:
  "\<not> isOffer ev \<Longrightarrow> ignoreOffer (snd (run E ev s)) = ignoreOffer s"
proof (cases ev)
  case (DoInitialize srv rid uid cbs)
  obtain es s' r where h: "initialize E srv rid uid cbs s = (es, s', r)" by (metis prod_cases3)
  from initialize_frame [OF h] show ?thesis by (simp add: DoInitialize h)
next
  case (DoStartLocalStream v a)
  obtain es s' r where h: "startLocalStream E v a s = (es, s', r)" by (metis prod_cases3)
  from startLocalStream_frame [OF h] show ?thesis by (simp add: DoStartLocalStream h)
next
  case (OnOffer data)
  assume "\<not> isOffer ev"
  with OnOffer show ?thesis by simp
next
  case (OnAnswer data)
  obtain es s' where h: "handleAnswer E data s = (es, s')" by (metis surj_pair)
  from handleAnswer_frame [OF h] show ?thesis by (simp add: OnAnswer h)
next
  case (OnIceCandidate data)
  then show ?thesis by (simp add: handleIceCandidate_def split: option.split)
next
  case OnNotification
  then show ?thesis by (simp add: notify_def)
next
  case (OnLocalCandidate c)
  then show ?thesis by (simp add: onicecandidate_def split: option.split)
next
  case OnNegotiationNeeded
  obtain ws es s' where h: "onnegotiationneeded E s = (ws, es, s')" by (metis prod_cases3)
  from onnegotiationneeded_frame [OF h] show ?thesis by (simp add: OnNegotiationNeeded h)
next
  case DoCreateOffer
  obtain ws es s' r where h: "createOffer E s = (ws, es, s', r)" by (metis prod_cases4)
  from createOffer_frame [OF h] show ?thesis by (simp add: DoCreateOffer h)
next
  case (DoSendChatMessage m)
  then show ?thesis by (simp add: sendChatMessage_def)
next
  case (DoMakeCall x)
  then show ?thesis by (simp add: makeCall_def)
next
  case (DoAcceptCall x)
  then show ?thesis by (simp add: acceptCall_def)
next
  case (DoRejectCall x)
  then show ?thesis by (simp add: rejectCall_def)
next
  case DoEndCall
  then show ?thesis by (simp add: endCall_def)
next
  case DoDisconnect
  then show ?thesis by (simp add: disconnect_def)
qed

lemma runAll_keeps_ignoreOffer:
  "ignoreOffer s \<Longrightarrow> \<forall>x \<in> set evs. \<not> isOffer (snd x) \<Longrightarrow> ignoreOffer (snd (runAll evs s))"
proof (induction evs arbitrary: s)
  case Nil
  then show ?case by simp
next
  case (Cons x xs)
  obtain es s1 where r: "run (fst x) (snd x) s = (es, s1)" by (metis surj_pair)
  have "ignoreOffer s1"
    using run_keeps_ignoreOffer [of "snd x" "fst x" s] Cons.prems r by simp
  from Cons.IH [OF this] Cons.prems(2) show ?case
    by (auto simp: r split: prod.split)
qed

lemma ignoring_drops:
  "ignoreOffer s \<Longrightarrow> handleAnswer E data s = ([], s) \<and> handleIceCandidate data s = ([], s)"
  by (simp add: handleAnswer_def handleIceCandidate_def split: option.split)

lemma runAll_dropped:
  "ignoreOffer s \<Longrightarrow> \<forall>x \<in> set evs. isAnswerOrCandidate (snd x) \<Longrightarrow> runAll evs s = ([], s)"
proof (induction evs)
  case Nil
  then show ?case by simp
next
  case (Cons x xs)
  have "run (fst x) (snd x) s = ([], s)"
    using Cons.prems by (cases "snd x") (simp_all add: ignoring_drops)
  with Cons show ?case by simp
qed

lemma ignoreOffer_set_only_by_offer:
  assumes "\<not> ignoreOffer s" "ignoreOffer (snd (run E ev s))"
  shows "\<exists>data p. ev = OnOffer data \<and> peerConnection s = Some p \<and> validSdp data
           \<and> \<not> politeness (userId s) (msgSender data)
           \<and> (makingOffer s \<or> signalingState p \<noteq> Stable)"
proof (cases "isOffer ev")
  case False
  from run_keeps_ignoreOffer [OF False, of E s] assms show ?thesis by simp
next
  case True
  then obtain data where ev: "ev = OnOffer data" by (cases ev) auto
  show ?thesis
  proof (cases "peerConnection s = None \<or> \<not> validSdp data")
    case True
    from handleOffer_invalid [OF True, of E] assms ev show ?thesis by simp
  next
    case False
    then obtain p where p: "peerConnection s = Some p" and v: "validSdp data" by auto
    from handleOffer_flags [OF p v, of E] assms(2) ev p v show ?thesis by simp
  qed
qed


subsection \<open>The accept sequence, case by case\<close>







lemma recoverFromSDPError_no_negotiation:
  "filter isNegotiationStep (fst (recoverFromSDPError E t)) = []"
  by (auto simp: recoverFromSDPError_def initializePeerConnection_def Let_def filter_empty_conv
      split: sum.splits option.splits prod.splits)

lemma catchSdpError_throw:
  "catchSdpError E (es, t, Some msg)
     = (if strIncludes msg ''error_content'' \<or> strIncludes msg ''InvalidStateError''
        then (es @ fst (recoverFromSDPError E t), snd (recoverFromSDPError E t))
        else (es, t))"
  by (simp add: catchSdpError_def split: prod.split)

lemma catchSdpError_negotiation:
  "filter isNegotiationStep (fst (catchSdpError E (es, t, r))) = filter isNegotiationStep es"
proof (cases r)
  case None
  then show ?thesis by (simp add: catchSdpError_def)
next
  case (Some msg)
  then show ?thesis
    by (simp add: catchSdpError_throw recoverFromSDPError_no_negotiation)
qed





subsection \<open>Envelopes and the offer flag\<close>



text \<open>The \<open>onnegotiationneeded\<close> handler holds \<open>makingOffer\<close> at each of its waits and
  clears it on every path; \<open>createOffer\<close> never assigns it.\<close>

lemma onnegotiationneeded_makingOffer:
  "list_all makingOffer (fst (onnegotiationneeded E s))
   \<and> \<not> makingOffer (snd (snd (onnegotiationneeded E s)))"
  by (simp add: onnegotiationneeded_def Let_def split: option.split sum.split)

lemma createOffer_makingOffer:
  "list_all (\<lambda>w. makingOffer w = makingOffer s) (fst (createOffer E s))
   \<and> makingOffer (fst (snd (snd (createOffer E s)))) = makingOffer s"
proof (cases "peerConnection s")
  case None
  then show ?thesis by (simp add: createOffer_def)
next
  case (Some p)
  obtain es0 s0 r0 where st:
    "(if localStream s = None then startLocalStream E True True s else ([], s, None)) = (es0, s0, r0)"
    by (metis prod_cases3)
  have fr: "makingOffer s0 = makingOffer s"
  proof (cases "localStream s = None")
    case True
    with st have "startLocalStream E True True s = (es0, s0, r0)" by simp
    from startLocalStream_frame [OF this] show ?thesis by simp
  next
    case False
    with st show ?thesis by simp
  qed
  show ?thesis
    unfolding createOffer_def Some option.case Let_def st
    using fr by (auto split: option.splits sum.splits)
qed

subsection \<open>Facts about the sample values\<close>

lemma aaron_impolite: "\<not> politeness ''aaron'' (Some ''alice'')"
  by (simp add: politeness_def)


lemma valid_offerFromAlice: "validSdp offerFromAlice \<and> msgSdp offerFromAlice = Some sampleOffer"
  by (simp add: validSdp_def offerFromAlice_def sampleOffer_def truthy_def)


subsection \<open>The claims\<close>




text \<open>
  C2 (as amended). The side with identifier \<open>a\<close> is polite towards a sender exactly
  when both identifiers are non-empty and \<open>a\<close> is lexicographically greater than the
  sender's; so an empty own identifier, a missing sender and an empty sender each give
  impolite. For two distinct, non-empty identifiers \<open>a\<close> and \<open>b\<close> the side of \<open>a\<close> is
  polite exactly when \<open>b < a\<close>, the side of \<open>b\<close> exactly when \<open>a < b\<close>, and so exactly
  one of the two is polite. Whatever the engine answers and whatever the other fields
  hold, \<open>handleOffer\<close> leaves in \<open>isPolite\<close> that function of the two identifiers, so
  computing it again gives the same role.
\<close>

theorem politeness_opposite_roles:
  "politeness a sender = (a \<noteq> [] \<and> (\<exists>x. sender = Some x \<and> x \<noteq> [] \<and> x < a))
   \<and> \<not> politeness [] sender \<and> \<not> politeness a None \<and> \<not> politeness a (Some [])
   \<and> (a \<noteq> [] \<and> b \<noteq> [] \<and> a \<noteq> b \<longrightarrow>
        politeness a (Some b) = (b < a) \<and> politeness b (Some a) = (a < b)
        \<and> politeness a (Some b) = (\<not> politeness b (Some a)))
   \<and> (peerConnection sa = Some pa \<and> validSdp db \<longrightarrow>
        isPolite (snd (handleOffer Ea db sa)) = politeness (userId sa) (msgSender db))
   \<and> (a \<noteq> [] \<and> b \<noteq> [] \<and> a \<noteq> b
        \<and> userId sa = a \<and> userId sb = b \<and> msgSender da = Some a \<and> msgSender db = Some b
        \<and> validSdp da \<and> validSdp db \<and> peerConnection sa = Some pa \<and> peerConnection sb = Some pb
        \<longrightarrow> isPolite (snd (handleOffer Ea db sa)) = (b < a)
            \<and> isPolite (snd (handleOffer Eb da sb)) = (a < b)
            \<and> isPolite (snd (handleOffer Ea db sa)) \<noteq> isPolite (snd (handleOffer Eb da sb)))"
proof -
  have char: "politeness a sender = (a \<noteq> [] \<and> (\<exists>x. sender = Some x \<and> x \<noteq> [] \<and> x < a))"
    by (cases sender) (auto simp: politeness_def)
  have none: "\<not> politeness [] sender" "\<not> politeness a None" "\<not> politeness a (Some [])"
    by (simp_all add: politeness_def)
  have opp: "politeness a (Some b) = (b < a) \<and> politeness b (Some a) = (a < b)
        \<and> politeness a (Some b) = (\<not> politeness b (Some a))"
    if "a \<noteq> [] \<and> b \<noteq> [] \<and> a \<noteq> b"
    using that by (auto simp: politeness_def)
  have stored: "isPolite (snd (handleOffer Ea db sa)) = politeness (userId sa) (msgSender db)"
    if "peerConnection sa = Some pa \<and> validSdp db"
    using that handleOffer_flags [of sa pa db Ea] by simp
  have both: "isPolite (snd (handleOffer Ea db sa)) = (b < a)
            \<and> isPolite (snd (handleOffer Eb da sb)) = (a < b)
            \<and> isPolite (snd (handleOffer Ea db sa)) \<noteq> isPolite (snd (handleOffer Eb da sb))"
    if h: "a \<noteq> [] \<and> b \<noteq> [] \<and> a \<noteq> b
        \<and> userId sa = a \<and> userId sb = b \<and> msgSender da = Some a \<and> msgSender db = Some b
        \<and> validSdp da \<and> validSdp db \<and> peerConnection sa = Some pa \<and> peerConnection sb = Some pb"
  proof -
    from h have hh: "a \<noteq> [] \<and> b \<noteq> [] \<and> a \<noteq> b" by simp
    note o = opp [OF hh]
    from h have st: "isPolite (snd (handleOffer Ea db sa)) = politeness a (Some b)"
      "isPolite (snd (handleOffer Eb da sb)) = politeness b (Some a)"
      using handleOffer_flags [of sa pa db Ea] handleOffer_flags [of sb pb da Eb] by simp_all
    show ?thesis unfolding st using o by blast
  qed
  from char none opp stored both show ?thesis by blast
qed

theorem politeness_opposite_roles_witness:
  "''bob'' \<noteq> [] \<and> ''alice'' \<noteq> [] \<and> ''bob'' \<noteq> ''alice'' \<and> ''alice'' < ''bob''
   \<and> politeness ''bob'' (Some ''alice'') \<and> \<not> politeness ''alice'' (Some ''bob'')
   \<and> isPolite (snd (handleOffer okEnv offerFromAlice bobService))
   \<and> \<not> isPolite (snd (handleOffer rejectingEnv offerFromBob aliceService))"
proof -
  have v: "validSdp offerFromBob" "msgSender offerFromBob = Some ''bob''"
    "msgSender offerFromAlice = Some ''alice''"
    by (simp_all add: validSdp_def offerFromBob_def offerFromAlice_def sampleOffer_def truthy_def)
  have s: "userId bobService = ''bob''" "userId aliceService = ''alice''"
    "peerConnection bobService = Some stablePC" "peerConnection aliceService = Some stablePC"
    by (simp_all add: aliceService_def bobService_def)
  have n: "''bob'' \<noteq> []" "''alice'' \<noteq> []" "''bob'' \<noteq> ''alice''" "''alice'' < ''bob''"
    "\<not> ''bob'' < ''alice''"
    by simp_all
  from politeness_opposite_roles
         [where a = "''bob''" and sender = "Some ''alice''" and b = "''alice''"
            and sa = bobService and pa = stablePC and db = offerFromAlice and Ea = okEnv
            and sb = aliceService and pb = stablePC and da = offerFromBob and Eb = rejectingEnv]
       v s n valid_offerFromAlice
  show ?thesis by auto
qed

text \<open>With an empty identifier both sides are impolite.\<close>

theorem politeness_empty_identifier:
  "'''' \<noteq> ''x'' \<and> \<not> politeness '''' (Some ''x'') \<and> \<not> politeness ''x'' (Some '''')"
  by (simp add: politeness_def)

text \<open>
  C3 (as amended). (1) A step turns \<open>ignoreOffer\<close> from false to true only if it is an
  inbound offer with valid \<open>sdp\<close> on the impolite side during a collision. (2) While
  the flag is true, any sequence of inbound answers and candidates is dropped: no call
  is made and the state is unchanged. (3) The flag stays true across every sequence of
  steps that contains no inbound offer. (4) An inbound offer with valid \<open>sdp\<close> sets the
  flag to "impolite and collision", whatever the engine answers afterwards: the next
  offer that is not an impolite collision clears it, whether its remote description is
  then applied or rejected.
\<close>

theorem ignoreOffer_discipline:
  "(\<not> ignoreOffer s \<and> ignoreOffer (snd (run E ev s)) \<longrightarrow>
      (\<exists>data q. ev = OnOffer data \<and> peerConnection s = Some q \<and> validSdp data
         \<and> \<not> politeness (userId s) (msgSender data)
         \<and> (makingOffer s \<or> signalingState q \<noteq> Stable)))
   \<and> (ignoreOffer s \<and> (\<forall>x \<in> set evs. isAnswerOrCandidate (snd x)) \<longrightarrow> runAll evs s = ([], s))
   \<and> (ignoreOffer s \<and> (\<forall>x \<in> set evs. \<not> isOffer (snd x)) \<longrightarrow> ignoreOffer (snd (runAll evs s)))
   \<and> (peerConnection s = Some p \<and> validSdp offer \<longrightarrow>
        ignoreOffer (snd (handleOffer E offer s))
          = (\<not> politeness (userId s) (msgSender offer)
             \<and> (makingOffer s \<or> signalingState p \<noteq> Stable)))"
  using ignoreOffer_set_only_by_offer [of s E ev] runAll_dropped [of s evs]
    runAll_keeps_ignoreOffer [of s evs] handleOffer_flags [of s p offer E]
  by blast

theorem ignoreOffer_discipline_witness:
  "\<not> ignoreOffer aaronService
   \<and> run okEnv (OnOffer offerFromAlice) aaronService = ([], aaronService\<lparr>ignoreOffer := True\<rparr>)
   \<and> \<not> politeness (userId aaronService) (msgSender offerFromAlice)
   \<and> makingOffer aaronService
   \<and> ignoreOffer aaronIgnoring
   \<and> runAll [(okEnv, OnAnswer answerFromAlice), (okEnv, OnIceCandidate candidateFromAlice)]
        aaronIgnoring = ([], aaronIgnoring)
   \<and> ignoreOffer (snd (runAll [(okEnv, DoSendChatMessage ''hi''), (okEnv, DoEndCall)] aaronIgnoring))
   \<and> \<not> ignoreOffer (snd (handleOffer rejectingEnv offerFromAlice aaronIgnoring))"
proof -
  have a: "\<not> ignoreOffer aaronService" "makingOffer aaronService"
    "userId aaronService = ''aaron''" "peerConnection aaronService = Some stablePC"
    by (simp_all add: aaronService_def bobService_def)
  have b: "ignoreOffer aaronIgnoring" "\<not> makingOffer aaronIgnoring"
    "userId aaronIgnoring = ''aaron''" "peerConnection aaronIgnoring = Some stablePC"
    by (simp_all add: aaronIgnoring_def aaronService_def bobService_def)
  have snd: "msgSender offerFromAlice = Some ''alice''" by (simp add: offerFromAlice_def)
  have r: "run okEnv (OnOffer offerFromAlice) aaronService = ([], aaronService\<lparr>ignoreOffer := True\<rparr>)"
    using handleOffer_valid [of aaronService stablePC offerFromAlice sampleOffer okEnv]
      valid_offerFromAlice a aaron_impolite snd
    by (simp add: aaronService_def bobService_def)
  show ?thesis
    using ignoreOffer_discipline [of aaronService okEnv "OnOffer offerFromAlice"
        "[(okEnv, OnAnswer answerFromAlice), (okEnv, OnIceCandidate candidateFromAlice)]"
        stablePC offerFromAlice]
      ignoreOffer_discipline [of aaronIgnoring rejectingEnv "OnOffer offerFromAlice"
        "[(okEnv, OnAnswer answerFromAlice), (okEnv, OnIceCandidate candidateFromAlice)]"
        stablePC offerFromAlice]
      ignoreOffer_discipline [of aaronIgnoring rejectingEnv "OnOffer offerFromAlice"
        "[(okEnv, DoSendChatMessage ''hi''), (okEnv, DoEndCall)]"
        stablePC offerFromAlice]
      a b r snd valid_offerFromAlice aaron_impolite
    by (simp add: stablePC_def)
qed

text \<open>The flag is cleared by an offer whose remote description the engine rejects: no
  remote description has been applied, and the next candidate and answer are not dropped.\<close>

theorem ignoreOffer_cleared_without_application:
  "ignoreOffer aaronIgnoring
   \<and> handleOffer rejectingEnv offerFromAlice aaronIgnoring
       = ([SetRemoteDescription sampleOffer], aaronIgnoring\<lparr>ignoreOffer := False\<rparr>)
   \<and> peerConnection (aaronIgnoring\<lparr>ignoreOffer := False\<rparr>) = Some stablePC
   \<and> remoteDescription stablePC = None
   \<and> handleIceCandidate candidateFromAlice (aaronIgnoring\<lparr>ignoreOffer := False\<rparr>)
       = ([AddIceCandidate ''candidate:1''], aaronIgnoring\<lparr>ignoreOffer := False\<rparr>)
   \<and> fst (handleAnswer okEnv answerFromAlice (aaronIgnoring\<lparr>ignoreOffer := False\<rparr>))
       = [SetRemoteDescription sampleAnswer]"
  by (simp add: handleOffer_def handleAnswer_def handleIceCandidate_def answerOffer_def
      catchSdpError_def validSdp_def truthy_def politeness_def
      aaronIgnoring_def aaronService_def bobService_def offerFromAlice_def answerFromAlice_def
      candidateFromAlice_def sampleOffer_def sampleAnswer_def stablePC_def rejectingEnv_def
      okEnv_def Let_def)




text \<open>
  C5 (the code at the input where it departs from the claim). Recovery of a service
  that holds an audio and a video track closes the connection, creates a new one with
  its two transceivers, and then re-adds each track with \<open>addTrack\<close>; the new
  transceivers never receive \<open>replaceTrack\<close>. The initial attach, on the same state,
  replaces the track of each transceiver.
\<close>

theorem recovery_readds_with_addTrack:
  "recoverFromSDPError okEnv bobService
     = ([ClosePeerConnection, NewPeerConnection, AddTransceiver Audio, AddTransceiver Video,
         CreateDataChannel ''chat'', AddTrack audioTrack, AddTrack videoTrack],
        bobService\<lparr>audioTransceiver := Some (Transceiver 3),
          videoTransceiver := Some (Transceiver 4)\<rparr>)
   \<and> attachStream
        (bobService\<lparr>audioTransceiver := Some (Transceiver 3),
           videoTransceiver := Some (Transceiver 4)\<rparr>) [audioTrack, videoTrack]
     = [ReplaceTrack (Transceiver 3) audioTrack, ReplaceTrack (Transceiver 4) videoTrack]"
  by (simp add: recoverFromSDPError_def initializePeerConnection_def attachStream_def
      attachTrack_def bobService_def okEnv_def stablePC_def audioTrack_def videoTrack_def Let_def)

text \<open>
  C6 (the code at the input where it departs from the claim). The public
  \<open>createOffer\<close> constructs and sends an offer while \<open>makingOffer\<close> is false at both of
  its waits; the \<open>onnegotiationneeded\<close> handler, on the same state, holds it true at
  both.
\<close>

theorem createOffer_leaves_makingOffer_false:
  "\<not> makingOffer aaronIdle
   \<and> createOffer okEnv aaronIdle
       = ([aaronIdle, aaronIdle],
          [CreateOffer True, SetLocalDescription sampleOffer,
           Emit ''offer''
             (PObj [(''roomId'', JStr ''room''), (''sdp'', JSdp sampleOffer),
                    (''sender'', JStr ''aaron'')])],
          aaronIdle\<lparr>peerConnection :=
            Some \<lparr>signalingState = Stable, localDescription = Some sampleAnswer,
                  remoteDescription = Some sampleOffer\<rparr>\<rparr>, None)
   \<and> map makingOffer (fst (createOffer okEnv aaronIdle)) = [False, False]
   \<and> map makingOffer (fst (onnegotiationneeded okEnv aaronIdle)) = [True, True]"
  by (simp add: createOffer_def onnegotiationneeded_def emit_def aaronIdle_def bobService_def
      okEnv_def Let_def)

text \<open>
  C7 (as amended). \<open>sendChatMessage\<close> decides by the state it is called in: with a data
  channel that reports \<open>open\<close> it sends the object \<open>{sender, message, time, senderId}\<close>
  on the data channel and nothing on the socket; otherwise it emits the envelope
  \<open>{roomId, sender, message}\<close> on the socket if there is one, and sends nothing if there
  is none. It never makes more than one send, and never changes the state.
\<close>

theorem sendChatMessage_one_path:
  "(dataChannel s = Some dc \<and> readyState dc = Open \<longrightarrow>
      sendChatMessage E m s
        = ([DataChannelSend
              (PObj [(''sender'', JStr (userId s)), (''message'', JStr m),
                     (''time'', JNum (res_now E)), (''senderId'', JStr (userId s))])], s))
   \<and> ((dataChannel s = None \<or> (dataChannel s = Some dc \<and> readyState dc \<noteq> Open))
        \<and> socket s = Some sock \<longrightarrow>
      sendChatMessage E m s
        = ([Emit ''chat-message''
              (PObj [(''roomId'', JStr (roomId s)), (''sender'', JStr (userId s)),
                     (''message'', JStr m)])], s))
   \<and> ((dataChannel s = None \<or> (dataChannel s = Some dc \<and> readyState dc \<noteq> Open))
        \<and> socket s = None \<longrightarrow> sendChatMessage E m s = ([], s))
   \<and> length (fst (sendChatMessage E m s)) \<le> 1"
  by (auto simp: sendChatMessage_def emit_def split: option.splits)

theorem sendChatMessage_one_path_witness:
  "sendChatMessage okEnv ''hi'' bobNegotiated
     = ([DataChannelSend
           (PObj [(''sender'', JStr ''bob''), (''message'', JStr ''hi''),
                  (''time'', JNum 1700000000000), (''senderId'', JStr ''bob'')])], bobNegotiated)
   \<and> sendChatMessage okEnv ''hi'' bobService
     = ([Emit ''chat-message''
           (PObj [(''roomId'', JStr ''room''), (''sender'', JStr ''bob''),
                  (''message'', JStr ''hi'')])], bobService)
   \<and> sendChatMessage okEnv ''hi'' newService = ([], newService)"
proof -
  have b: "dataChannel bobNegotiated = Some \<lparr>readyState = Open\<rparr>" "userId bobNegotiated = ''bob''"
    "dataChannel bobService = Some \<lparr>readyState = Connecting\<rparr>" "userId bobService = ''bob''"
    "roomId bobService = ''room''" "socket bobService = Some \<lparr>connected = True\<rparr>"
    "dataChannel newService = None" "socket newService = None"
    "res_now okEnv = 1700000000000"
    by (simp_all add: bobNegotiated_def bobService_def newService_def okEnv_def)
  show ?thesis
    using sendChatMessage_one_path
        [of bobNegotiated "\<lparr>readyState = Open\<rparr>" okEnv "''hi''" "\<lparr>connected = True\<rparr>"]
      sendChatMessage_one_path
        [of bobService "\<lparr>readyState = Connecting\<rparr>" okEnv "''hi''" "\<lparr>connected = True\<rparr>"]
      sendChatMessage_one_path
        [of newService "\<lparr>readyState = Connecting\<rparr>" okEnv "''hi''" "\<lparr>connected = True\<rparr>"]
      b
    by simp
qed

text \<open>After \<open>disconnect\<close> a message is sent on no path; and the two paths do not carry
  the same fields.\<close>

theorem sendChatMessage_no_path_and_shapes:
  "fst (sendChatMessage okEnv ''hi'' (snd (disconnect bobNegotiated))) = []
   \<and> fst (sendChatMessage okEnv ''hi'' bobNegotiated)
       = [DataChannelSend
            (PObj [(''sender'', JStr ''bob''), (''message'', JStr ''hi''),
                   (''time'', JNum 1700000000000), (''senderId'', JStr ''bob'')])]
   \<and> fst (sendChatMessage okEnv ''hi'' bobService)
       = [Emit ''chat-message''
            (PObj [(''roomId'', JStr ''room''), (''sender'', JStr ''bob''),
                   (''message'', JStr ''hi'')])]
   \<and> map fst [(''sender'', JStr ''bob''), (''message'', JStr ''hi''),
               (''time'', JNum 1700000000000), (''senderId'', JStr ''bob'')]
       \<noteq> map fst [(''roomId'', JStr ''room''), (''sender'', JStr ''bob''),
                   (''message'', JStr ''hi'')]"
  by (simp add: sendChatMessage_def disconnect_def emit_def bobNegotiated_def bobService_def
      okEnv_def)




text \<open>
  C9. An inbound offer whose \<open>sdp\<close> payload is missing, or lacks a non-empty \<open>type\<close> or
  \<open>sdp\<close> field, is dropped: whatever the engine would answer, \<open>handleOffer\<close> makes no
  call on the engine or the socket and returns the state it was given, every field
  unchanged.
\<close>

theorem handleOffer_malformed_dropped:
  "\<not> validSdp data \<Longrightarrow> handleOffer E data s = ([], s)"
  by (simp add: handleOffer_def split: option.split)

theorem handleOffer_malformed_dropped_witness:
  "\<not> validSdp malformedOffer \<and> handleOffer okEnv malformedOffer bobService = ([], bobService)"
  using handleOffer_malformed_dropped [of malformedOffer okEnv bobService]
  by (simp add: validSdp_def malformedOffer_def truthy_def)

text \<open>
  C10. \<open>initialize\<close> on a service that is already initialised returns without an
  exception, makes no call on the socket or the engine, and leaves every field as it
  was, whatever arguments it is given.
\<close>

theorem initialize_twice_noop:
  "isInitialized s \<Longrightarrow> initialize E signalingServer rid uid cbs s = ([], s, None)"
  by (simp add: initialize_def)

theorem initialize_twice_noop_witness:
  "isInitialized bobService \<and>
   initialize okEnv ''https://other'' ''other-room'' ''carol'' 7 bobService
     = ([], bobService, None)"
  using initialize_twice_noop [of bobService okEnv "''https://other''" "''other-room''" "''carol''" 7]
  by (simp add: bobService_def)

end
